theory Spec2Isabelle
  imports Main "HOL-Library.Word"
begin

section \<open>The Nova admin client (nova/adminclient.py)\<close>

text \<open>
  The client issues named operations over a boto EC2 connection and decodes the flat XML
  answers into attribute bags (\<open>UserInfo\<close>, \<open>ProjectInfo\<close>, \<open>HostInfo\<close>) through the
  SAX callbacks \<open>startElement\<close> / \<open>endElement\<close>. The callbacks, the constructors and the
  methods of \<open>NovaAdminClient\<close> are embedded from the source. The boto connection
  (\<open>connect_ec2\<close>, \<open>get_object\<close>, \<open>get_list\<close>, \<open>get_status\<close>) and Python's
  \<open>base64\<close> are libraries outside the source; they are embedded from the specification
  (its \<open>decode_single\<close>, \<open>decode_list\<close>, \<open>decode_status\<close> and query transport).
\<close>

subsection \<open>Errors and values\<close>

text \<open>
  Every raise is a value. \<open>AttributeError ty a\<close> is Python's
  "\<open>ty\<close> object has no attribute \<open>a\<close>"; \<open>UnicodeEncodeError\<close> is what \<open>str\<close> raises on a
  text outside ASCII; \<open>Base64Error\<close> is what \<open>base64.b64decode\<close> raises on a text that is not
  base64. The three kinds ending in \<open>Kind\<close> are the specification's names for the failures
  of the transport and of the decoder.
\<close>

datatype error =
    TransportFailureKind
  | MalformedResponseKind
  | MissingStatusKind
  | AttributeError string string
  | UnicodeEncodeError
  | Base64Error
  | TypeError

text \<open>
  The source has no error class of its own. What the specification calls
  \<open>UnknownUserKind\<close> is, in the source, the \<open>AttributeError\<close> raised when
  \<open>connection_for\<close> reads \<open>accesskey\<close> off the \<open>None\<close> that \<open>get_user\<close> returned.
\<close>

abbreviation UnknownUserKind :: error where
  "UnknownUserKind \<equiv> AttributeError ''NoneType'' ''accesskey''"

type_synonym byte = "8 word"

definition and_then :: "error + 'a \<Rightarrow> ('a \<Rightarrow> error + 'b) \<Rightarrow> error + 'b" where
  "and_then r f = (case r of Inl e \<Rightarrow> Inl e | Inr v \<Rightarrow> f v)"

subsection \<open>base64\<close>

text \<open>
  Modelled from the spec: \<open>base64.b64decode\<close> (and the encoder of the remote side) belong to
  Python's standard library, which is not part of the source. The specification only says
  "base64-decode the text and assign the raw bytes"; the model is the standard alphabet with
  \<open>=\<close> padding, three bytes to four characters, and every other text rejected.
\<close>

definition b64_alphabet :: string where
  "b64_alphabet = ''ABCDEFGHIJKLMNOPQRSTUVWXYZabcdefghijklmnopqrstuvwxyz0123456789+/''"

fun index_of :: "'a \<Rightarrow> 'a list \<Rightarrow> nat option" where
  "index_of x [] = None"
| "index_of x (y # ys) =
     (if x = y then Some 0 else (case index_of x ys of None \<Rightarrow> None | Some i \<Rightarrow> Some (Suc i)))"

definition b64_char :: "nat \<Rightarrow> char" where
  "b64_char v = b64_alphabet ! (v mod 64)"

definition b64_value :: "char \<Rightarrow> nat option" where
  "b64_value c = index_of c b64_alphabet"

fun b64encode :: "byte list \<Rightarrow> string" where
  "b64encode [] = []"
| "b64encode [a] =
     (let n = unat a * 65536
      in [b64_char (n div 262144), b64_char (n div 4096), CHR ''='', CHR ''=''])"
| "b64encode [a, b] =
     (let n = unat a * 65536 + unat b * 256
      in [b64_char (n div 262144), b64_char (n div 4096), b64_char (n div 64), CHR ''=''])"
| "b64encode (a # b # c # rest) =
     (let n = unat a * 65536 + unat b * 256 + unat c
      in [b64_char (n div 262144), b64_char (n div 4096), b64_char (n div 64), b64_char n]
         @ b64encode rest)"

definition quantum3 :: "char \<Rightarrow> char \<Rightarrow> char \<Rightarrow> char \<Rightarrow> error + byte list" where
  "quantum3 c1 c2 c3 c4 =
     (case (b64_value c1, b64_value c2, b64_value c3, b64_value c4) of
        (Some s1, Some s2, Some s3, Some s4) \<Rightarrow>
          (let n = s1 * 262144 + s2 * 4096 + s3 * 64 + s4
           in Inr [of_nat (n div 65536), of_nat (n div 256), of_nat n])
      | _ \<Rightarrow> Inl Base64Error)"

definition quantum2 :: "char \<Rightarrow> char \<Rightarrow> char \<Rightarrow> error + byte list" where
  "quantum2 c1 c2 c3 =
     (case (b64_value c1, b64_value c2, b64_value c3) of
        (Some s1, Some s2, Some s3) \<Rightarrow>
          (let n = s1 * 262144 + s2 * 4096 + s3 * 64
           in Inr [of_nat (n div 65536), of_nat (n div 256)])
      | _ \<Rightarrow> Inl Base64Error)"

definition quantum1 :: "char \<Rightarrow> char \<Rightarrow> error + byte list" where
  "quantum1 c1 c2 =
     (case (b64_value c1, b64_value c2) of
        (Some s1, Some s2) \<Rightarrow>
          (let n = s1 * 262144 + s2 * 4096
           in Inr [of_nat (n div 65536)])
      | _ \<Rightarrow> Inl Base64Error)"

fun b64decode :: "string \<Rightarrow> error + byte list" where
  "b64decode [] = Inr []"
| "b64decode (c1 # c2 # c3 # c4 # rest) =
     (if rest = [] \<and> c3 = CHR ''='' \<and> c4 = CHR ''='' then quantum1 c1 c2
      else if rest = [] \<and> c4 = CHR ''='' then quantum2 c1 c2 c3
      else and_then (quantum3 c1 c2 c3 c4)
             (\<lambda>bs. and_then (b64decode rest) (\<lambda>more. Inr (bs @ more))))"
| "b64decode _ = Inl Base64Error"


subsection \<open>Connections\<close>

text \<open>
  Modelled from the spec: \<open>boto.connect_ec2\<close> and \<open>RegionInfo\<close> are boto's. A connection is
  the configuration it was built from ("a new transport configuration"); building one sends
  nothing. \<open>APIVersion\<close> is \<open>None\<close> until the client assigns it.
\<close>

record RegionInfo =
  region_name :: string
  region_endpoint :: string

record connection =
  aws_access_key_id :: string
  aws_secret_access_key :: string
  is_secure :: bool
  conn_region :: RegionInfo
  port :: nat
  path :: string
  kwargs :: "(string \<times> string) list"
  APIVersion :: "string option"

definition connect_ec2 ::
  "string \<Rightarrow> string \<Rightarrow> bool \<Rightarrow> RegionInfo \<Rightarrow> nat \<Rightarrow> string \<Rightarrow> (string \<times> string) list \<Rightarrow> connection" where
  "connect_ec2 key_id secret_key secure reg prt pth kw =
     \<lparr>aws_access_key_id = key_id, aws_secret_access_key = secret_key, is_secure = secure,
      conn_region = reg, port = prt, path = pth, kwargs = kw, APIVersion = None\<rparr>"

subsection \<open>Result objects: UserInfo, ProjectInfo, HostInfo\<close>

text \<open>
  An object is its attribute dictionary. \<open>PyStr\<close> is a text, \<open>PyBytes\<close> the result of
  \<open>base64.b64decode\<close>, \<open>PyConn\<close> the back-reference to the connection that produced the
  object.
\<close>

datatype pyval = PyNone | PyStr string | PyBytes "byte list" | PyConn connection

type_synonym pyobj = "string \<rightharpoonup> pyval"

datatype cls = UserInfo | ProjectInfo | HostInfo

text \<open>
  The three \<open>__init__\<close> methods, as boto calls them: with the connection, every other
  argument at its default \<open>None\<close>.
\<close>

fun init_object :: "cls \<Rightarrow> connection \<Rightarrow> pyobj" where
  "init_object UserInfo c =
     [''connection'' \<mapsto> PyConn c, ''username'' \<mapsto> PyNone, ''endpoint'' \<mapsto> PyNone]"
| "init_object ProjectInfo c =
     [''connection'' \<mapsto> PyConn c, ''projectname'' \<mapsto> PyNone, ''endpoint'' \<mapsto> PyNone]"
| "init_object HostInfo c =
     [''connection'' \<mapsto> PyConn c, ''hostname'' \<mapsto> PyNone]"

definition getattr :: "string \<Rightarrow> pyobj \<Rightarrow> string \<Rightarrow> error + pyval" where
  "getattr ty obj a = (case obj a of None \<Rightarrow> Inl (AttributeError ty a) | Some v \<Rightarrow> Inr v)"

text \<open>
  \<open>str(value)\<close> on the text the SAX reader hands over: the same characters when all of
  them are ASCII, \<open>UnicodeEncodeError\<close> otherwise.
\<close>

definition py_str :: "string \<Rightarrow> error + string" where
  "py_str s = (if list_all (\<lambda>c. \<not> digit7 c) s then Inr s else Inl UnicodeEncodeError)"

text \<open>
  \<open>endElement\<close> of the three classes. \<open>UserInfo\<close> has an \<open>if\<close>/\<open>elif\<close> chain over four
  names and no \<open>else\<close>; \<open>ProjectInfo\<close> is \<open>setattr(self, name, str(value))\<close>;
  \<open>HostInfo\<close> is \<open>setattr(self, name, value)\<close>.
\<close>

fun endElement :: "cls \<Rightarrow> string \<Rightarrow> string \<Rightarrow> pyobj \<Rightarrow> error + pyobj" where
  "endElement UserInfo name v obj =
     (if name = ''username'' then
        and_then (py_str v) (\<lambda>s. Inr (obj(''username'' \<mapsto> PyStr s)))
      else if name = ''file'' then
        and_then (py_str v) (\<lambda>s. and_then (b64decode s) (\<lambda>bs. Inr (obj(''file'' \<mapsto> PyBytes bs))))
      else if name = ''accesskey'' then
        and_then (py_str v) (\<lambda>s. Inr (obj(''accesskey'' \<mapsto> PyStr s)))
      else if name = ''secretkey'' then
        and_then (py_str v) (\<lambda>s. Inr (obj(''secretkey'' \<mapsto> PyStr s)))
      else Inr obj)"
| "endElement ProjectInfo name v obj =
     and_then (py_str v) (\<lambda>s. Inr (obj(name \<mapsto> PyStr s)))"
| "endElement HostInfo name v obj = Inr (obj(name \<mapsto> PyStr v))"

subsection \<open>The typed decoder\<close>

text \<open>
  Modelled from the spec: the decoder is boto's (\<open>get_object\<close>, \<open>get_list\<close>,
  \<open>get_status\<close> and its SAX handler), not part of the source. Following the
  specification, a stream is "a sequence of (elementStart, elementEnd-with-text) events";
  it is well-formed when the events nest properly under one root element.
\<close>

datatype event = ElementStart string | ElementEnd string string

fun nested :: "string list \<Rightarrow> event list \<Rightarrow> bool" where
  "nested stk [] = (stk = [])"
| "nested [] (e # es) = False"
| "nested (m # stk) (ElementStart n # es) = nested (n # m # stk) es"
| "nested (m # stk) (ElementEnd n t # es) = (m = n \<and> nested stk es)"

fun well_formed :: "event list \<Rightarrow> bool" where
  "well_formed (ElementStart n # es) = nested [n] es"
| "well_formed _ = False"

text \<open>
  Replaying the events onto an object: \<open>startElement\<close> of every class returns \<open>None\<close> and
  changes nothing; an element end goes to \<open>endElement\<close>; the first error stops the replay.
\<close>

fun populate :: "cls \<Rightarrow> event list \<Rightarrow> pyobj \<Rightarrow> error + pyobj" where
  "populate T [] obj = Inr obj"
| "populate T (ElementStart n # es) obj = populate T es obj"
| "populate T (ElementEnd n t # es) obj = and_then (endElement T n t obj) (populate T es)"

definition decode_single :: "cls \<Rightarrow> connection \<Rightarrow> event list \<Rightarrow> error + pyobj" where
  "decode_single T c evs =
     (if well_formed evs then populate T evs (init_object T c) else Inl MalformedResponseKind)"

text \<open>
  \<open>decode_list\<close>: outside an item, the start of an element named \<open>tag\<close> opens a fresh
  record; inside, every event goes to that record until the end of the element that opened
  it (the counter is the number of open elements of the same name inside the item).
\<close>

fun collect ::
  "cls \<Rightarrow> connection \<Rightarrow> string \<Rightarrow> event list \<Rightarrow> (nat \<times> pyobj) option \<Rightarrow> pyobj list \<Rightarrow> error + pyobj list" where
  "collect T c tag [] cur acc = Inr acc"
| "collect T c tag (ElementStart n # es) None acc =
     (if n = tag then collect T c tag es (Some (0, init_object T c)) acc
      else collect T c tag es None acc)"
| "collect T c tag (ElementEnd n t # es) None acc = collect T c tag es None acc"
| "collect T c tag (ElementStart n # es) (Some (d, obj)) acc =
     collect T c tag es (Some (if n = tag then Suc d else d, obj)) acc"
| "collect T c tag (ElementEnd n t # es) (Some (d, obj)) acc =
     (if n = tag \<and> d = 0 then collect T c tag es None (acc @ [obj])
      else and_then (endElement T n t obj)
             (\<lambda>obj'. collect T c tag es (Some (if n = tag then d - 1 else d, obj')) acc))"

definition decode_list :: "cls \<Rightarrow> connection \<Rightarrow> string \<Rightarrow> event list \<Rightarrow> error + pyobj list" where
  "decode_list T c tag evs =
     (if well_formed evs then collect T c tag evs None [] else Inl MalformedResponseKind)"

text \<open>\<open>decode_status\<close>: the text of the first \<open>return\<close> element, compared in lower case.\<close>

definition lower_char :: "char \<Rightarrow> char" where
  "lower_char c =
     (case map_of (zip ''ABCDEFGHIJKLMNOPQRSTUVWXYZ'' ''abcdefghijklmnopqrstuvwxyz'') c of
        None \<Rightarrow> c | Some l \<Rightarrow> l)"

fun status_text :: "event list \<Rightarrow> string option" where
  "status_text [] = None"
| "status_text (ElementStart n # es) = status_text es"
| "status_text (ElementEnd n t # es) = (if n = ''return'' then Some t else status_text es)"

definition decode_status :: "event list \<Rightarrow> error + bool" where
  "decode_status evs =
     (if well_formed evs then
        (case status_text evs of
           None \<Rightarrow> Inl MissingStatusKind
         | Some t \<Rightarrow> Inr (map lower_char t = ''true''))
      else Inl MalformedResponseKind)"

subsection \<open>What a document says, independently of the decoder\<close>

text \<open>The text of the last element named \<open>tag\<close> in a stream.\<close>

fun last_text :: "string \<Rightarrow> event list \<Rightarrow> string option" where
  "last_text tag [] = None"
| "last_text tag (ElementStart n # es) = last_text tag es"
| "last_text tag (ElementEnd n t # es) =
     (case last_text tag es of
        Some t' \<Rightarrow> Some t'
      | None \<Rightarrow> (if n = tag then Some t else None))"







subsection \<open>The query transport\<close>

text \<open>
  Modelled from the spec: "\<open>call(operationName, params) -> byteStream\<close> over a signed HTTP
  request", or a transport-level failure. The remote side is a parameter: a function from the
  requests sent so far and the request at hand to its answer. Sending a request appends it to
  the record of requests sent, so that what an operation sent, and on which path, can be
  stated. The parameters are the dictionary literal of the source, in its order; \<open>None\<close>
  is Python's \<open>None\<close>.
\<close>

record request =
  target :: connection
  action :: string
  params :: "(string \<times> string option) list"

datatype response = TransportFailure | Body "event list"

type_synonym service = "request list \<Rightarrow> request \<Rightarrow> response"

record NovaAdminClient =
  clc_ip :: string
  region :: string
  access :: string
  secret :: string
  apiconn :: connection

record state =
  self :: NovaAdminClient
  sent :: "request list"

definition make_request ::
  "service \<Rightarrow> connection \<Rightarrow> string \<Rightarrow> (string \<times> string option) list \<Rightarrow> state
     \<Rightarrow> (error + event list) \<times> state" where
  "make_request svc c a ps st =
     (let r = \<lparr>target = c, action = a, params = ps\<rparr>
      in ((case svc (sent st) r of
             TransportFailure \<Rightarrow> Inl TransportFailureKind
           | Body evs \<Rightarrow> Inr evs),
          st\<lparr>sent := sent st @ [r]\<rparr>))"

definition get_object ::
  "service \<Rightarrow> connection \<Rightarrow> string \<Rightarrow> (string \<times> string option) list \<Rightarrow> cls \<Rightarrow> state
     \<Rightarrow> (error + pyobj) \<times> state" where
  "get_object svc c a ps T st =
     (case make_request svc c a ps st of
        (Inl e, st') \<Rightarrow> (Inl e, st')
      | (Inr evs, st') \<Rightarrow> (decode_single T c evs, st'))"

definition get_list ::
  "service \<Rightarrow> connection \<Rightarrow> string \<Rightarrow> (string \<times> string option) list \<Rightarrow> string \<times> cls \<Rightarrow> state
     \<Rightarrow> (error + pyobj list) \<times> state" where
  "get_list svc c a ps marker st =
     (case make_request svc c a ps st of
        (Inl e, st') \<Rightarrow> (Inl e, st')
      | (Inr evs, st') \<Rightarrow> (decode_list (snd marker) c (fst marker) evs, st'))"

definition get_status ::
  "service \<Rightarrow> connection \<Rightarrow> string \<Rightarrow> (string \<times> string option) list \<Rightarrow> state
     \<Rightarrow> (error + bool) \<times> state" where
  "get_status svc c a ps st =
     (case make_request svc c a ps st of
        (Inl e, st') \<Rightarrow> (Inl e, st')
      | (Inr evs, st') \<Rightarrow> (decode_status evs, st'))"

subsection \<open>NovaAdminClient\<close>

definition NovaAdminClient_init ::
  "string \<Rightarrow> string \<Rightarrow> string \<Rightarrow> string \<Rightarrow> (string \<times> string) list \<Rightarrow> NovaAdminClient" where
  "NovaAdminClient_init ip reg access_key secret_key kw =
     \<lparr>clc_ip = ip, region = reg, access = access_key, secret = secret_key,
      apiconn = (connect_ec2 access_key secret_key False
                   \<lparr>region_name = reg, region_endpoint = ip\<rparr> 8773 ''/services/Admin'' kw)
                \<lparr>APIVersion := Some ''nova''\<rparr>\<rparr>"

definition get_users :: "service \<Rightarrow> state \<Rightarrow> (error + pyobj list) \<times> state" where
  "get_users svc st = get_list svc (apiconn (self st)) ''DescribeUsers'' [] (''item'', UserInfo) st"

text \<open>
  \<open>get_user\<close> returns the user when \<open>user.username != None\<close> and falls off its end
  otherwise, which returns \<open>None\<close>: the result is an optional object.
\<close>

definition get_user :: "service \<Rightarrow> string \<Rightarrow> state \<Rightarrow> (error + pyobj option) \<times> state" where
  "get_user svc name st =
     (case get_object svc (apiconn (self st)) ''DescribeUser'' [(''Name'', Some name)] UserInfo st of
        (Inl e, st') \<Rightarrow> (Inl e, st')
      | (Inr user, st') \<Rightarrow>
          (and_then (getattr ''UserInfo'' user ''username'')
             (\<lambda>v. if v \<noteq> PyNone then Inr (Some user) else Inr None), st'))"

definition has_user :: "service \<Rightarrow> string \<Rightarrow> state \<Rightarrow> (error + bool) \<times> state" where
  "has_user svc username st =
     (case get_user svc username st of
        (r, st') \<Rightarrow> (and_then r (\<lambda>u. Inr (u \<noteq> None)), st'))"

text \<open>
  \<open>connection_for\<close> reads \<open>user.accesskey\<close> and \<open>user.secretkey\<close> off the result of
  \<open>get_user\<close>. On \<open>None\<close> the first read raises the \<open>AttributeError\<close> of \<open>NoneType\<close>.
  The two attributes, when set, are texts (\<open>endElement\<close> is their only writer); the
  \<open>TypeError\<close> branch keeps the function total and is never taken.
\<close>

definition as_text :: "pyval \<Rightarrow> error + string" where
  "as_text v = (case v of PyStr s \<Rightarrow> Inr s | _ \<Rightarrow> Inl TypeError)"

definition connection_for ::
  "service \<Rightarrow> string \<Rightarrow> (string \<times> string) list \<Rightarrow> state \<Rightarrow> (error + connection) \<times> state" where
  "connection_for svc username kw st =
     (case get_user svc username st of
        (Inl e, st') \<Rightarrow> (Inl e, st')
      | (Inr None, st') \<Rightarrow> (Inl UnknownUserKind, st')
      | (Inr (Some user), st') \<Rightarrow>
          (and_then (getattr ''UserInfo'' user ''accesskey'') (\<lambda>ak.
           and_then (getattr ''UserInfo'' user ''secretkey'') (\<lambda>sk.
           and_then (as_text ak) (\<lambda>key_id.
           and_then (as_text sk) (\<lambda>secret_key.
             Inr (connect_ec2 key_id secret_key False
                    \<lparr>region_name = region (self st'), region_endpoint = clc_ip (self st')\<rparr>
                    8773 ''/services/Cloud'' kw))))), st'))"

definition create_user :: "service \<Rightarrow> string \<Rightarrow> state \<Rightarrow> (error + pyobj) \<times> state" where
  "create_user svc username st =
     get_object svc (apiconn (self st)) ''RegisterUser'' [(''Name'', Some username)] UserInfo st"

definition delete_user :: "service \<Rightarrow> string \<Rightarrow> state \<Rightarrow> (error + pyobj) \<times> state" where
  "delete_user svc username st =
     get_object svc (apiconn (self st)) ''DeregisterUser'' [(''Name'', Some username)] UserInfo st"

definition modify_user_role ::
  "service \<Rightarrow> string \<Rightarrow> string \<Rightarrow> string option \<Rightarrow> string \<Rightarrow> state \<Rightarrow> (error + bool) \<times> state" where
  "modify_user_role svc user role project operation st =
     get_status svc (apiconn (self st)) ''ModifyUserRole''
       [(''User'', Some user), (''Role'', Some role), (''Project'', project),
        (''Operation'', Some operation)] st"

definition add_user_role ::
  "service \<Rightarrow> string \<Rightarrow> string \<Rightarrow> string option \<Rightarrow> state \<Rightarrow> (error + bool) \<times> state" where
  "add_user_role svc user role project st = modify_user_role svc user role project ''add'' st"

definition remove_user_role ::
  "service \<Rightarrow> string \<Rightarrow> string \<Rightarrow> string option \<Rightarrow> state \<Rightarrow> (error + bool) \<times> state" where
  "remove_user_role svc user role project st = modify_user_role svc user role project ''remove'' st"

definition get_projects :: "service \<Rightarrow> state \<Rightarrow> (error + pyobj list) \<times> state" where
  "get_projects svc st =
     get_list svc (apiconn (self st)) ''DescribeProjects'' [] (''item'', ProjectInfo) st"

definition get_project :: "service \<Rightarrow> string \<Rightarrow> state \<Rightarrow> (error + pyobj option) \<times> state" where
  "get_project svc name st =
     (case get_object svc (apiconn (self st)) ''DescribeProject'' [(''Name'', Some name)] ProjectInfo st of
        (Inl e, st') \<Rightarrow> (Inl e, st')
      | (Inr project, st') \<Rightarrow>
          (and_then (getattr ''ProjectInfo'' project ''projectname'')
             (\<lambda>v. if v \<noteq> PyNone then Inr (Some project) else Inr None), st'))"

definition create_project ::
  "service \<Rightarrow> string \<Rightarrow> string \<Rightarrow> string option \<Rightarrow> string option \<Rightarrow> state
     \<Rightarrow> (error + pyobj) \<times> state" where
  "create_project svc projectname manager_user description member_users st =
     get_object svc (apiconn (self st)) ''RegisterProject''
       [(''Name'', Some projectname), (''ManagerUser'', Some manager_user),
        (''Description'', description), (''MemberUsers'', member_users)] ProjectInfo st"

definition delete_project :: "service \<Rightarrow> string \<Rightarrow> state \<Rightarrow> (error + pyobj) \<times> state" where
  "delete_project svc projectname st =
     get_object svc (apiconn (self st)) ''DeregisterProject'' [(''Name'', Some projectname)]
       ProjectInfo st"

definition modify_project_user ::
  "service \<Rightarrow> string \<Rightarrow> string \<Rightarrow> string \<Rightarrow> state \<Rightarrow> (error + bool) \<times> state" where
  "modify_project_user svc user project operation st =
     get_status svc (apiconn (self st)) ''ModifyProjectUser''
       [(''User'', Some user), (''Project'', Some project), (''Operation'', Some operation)] st"

definition get_zip :: "service \<Rightarrow> string \<Rightarrow> state \<Rightarrow> (error + pyval) \<times> state" where
  "get_zip svc username st =
     (case get_object svc (apiconn (self st)) ''GenerateX509ForUser'' [(''Name'', Some username)]
             UserInfo st of
        (Inl e, st') \<Rightarrow> (Inl e, st')
      | (Inr user, st') \<Rightarrow> (getattr ''UserInfo'' user ''file'', st'))"

definition get_hosts :: "service \<Rightarrow> state \<Rightarrow> (error + pyobj list) \<times> state" where
  "get_hosts svc st = get_list svc (apiconn (self st)) ''DescribeHosts'' [] (''item'', HostInfo) st"

subsection \<open>Sample client, services and documents\<close>

text \<open>
  The client of \<open>NovaAdminClient()\<close> with the defaults of \<open>__init__\<close>, before any
  request, and services that answer every request with one document.
\<close>

definition demo_client :: NovaAdminClient where
  "demo_client = NovaAdminClient_init ''127.0.0.1'' ''nova'' ''admin'' ''admin'' []"

definition demo_state :: state where
  "demo_state = \<lparr>self = demo_client, sent = []\<rparr>"

definition fixed_service :: "event list \<Rightarrow> service" where
  "fixed_service evs log r = Body evs"

definition alice_doc :: "event list" where
  "alice_doc =
     [ElementStart ''DescribeUserResponse'',
      ElementStart ''username'', ElementEnd ''username'' ''alice'',
      ElementStart ''accesskey'', ElementEnd ''accesskey'' ''AK1'',
      ElementStart ''secretkey'', ElementEnd ''secretkey'' ''SK1'',
      ElementStart ''email'', ElementEnd ''email'' ''alice@example.org'',
      ElementStart ''file'', ElementEnd ''file'' ''AP+ACg=='',
      ElementEnd ''DescribeUserResponse'' []]"

definition empty_name_doc :: "event list" where
  "empty_name_doc =
     [ElementStart ''DescribeUserResponse'',
      ElementStart ''username'', ElementEnd ''username'' [],
      ElementEnd ''DescribeUserResponse'' []]"

definition no_user_doc :: "event list" where
  "no_user_doc =
     [ElementStart ''DescribeUserResponse'', ElementEnd ''DescribeUserResponse'' []]"



definition status_doc :: "string \<Rightarrow> event list" where
  "status_doc t =
     [ElementStart ''ModifyUserRoleResponse'',
      ElementStart ''return'', ElementEnd ''return'' t,
      ElementEnd ''ModifyUserRoleResponse'' []]"

section \<open>Properties\<close>

subsection \<open>base64 round trip\<close>

lemma distinct_alphabet: "distinct b64_alphabet"
  unfolding b64_alphabet_def by code_simp

lemma length_alphabet: "length b64_alphabet = 64"
  by (simp add: b64_alphabet_def)

lemma index_of_nth: "distinct xs \<Longrightarrow> i < length xs \<Longrightarrow> index_of (xs ! i) xs = Some i"
proof (induction xs arbitrary: i)
  case Nil
  then show ?case by simp
next
  case (Cons x xs)
  show ?case
  proof (cases i)
    case 0
    then show ?thesis by simp
  next
    case (Suc j)
    with Cons.prems have "j < length xs" "distinct xs" "xs ! j \<noteq> x"
      by auto
    with Cons.IH [of j] Suc show ?thesis by auto
  qed
qed

lemma b64_value_char: "b64_value (b64_char v) = Some (v mod 64)"
  unfolding b64_value_def b64_char_def
  by (rule index_of_nth [OF distinct_alphabet]) (simp add: length_alphabet)

lemma pad_not_in_alphabet: "CHR ''='' \<notin> set b64_alphabet"
  unfolding b64_alphabet_def by code_simp

lemma b64_char_not_pad: "b64_char v \<noteq> CHR ''=''"
proof -
  have "b64_char v \<in> set b64_alphabet"
    unfolding b64_char_def by (rule nth_mem) (simp add: length_alphabet)
  with pad_not_in_alphabet show ?thesis by metis
qed

lemma byte_bound: "unat (a :: byte) < 256"
  using unsigned_less [of a, where ?'a = nat] by simp

lemma byte_of_mod: "m mod 256 = unat (a :: byte) \<Longrightarrow> (of_nat m :: byte) = a"
proof -
  assume h: "m mod 256 = unat a"
  have "unat (of_nat m :: byte) = m mod 256" by (simp add: unat_of_nat)
  with h have "unat (of_nat m :: byte) = unat a" by simp
  then show ?thesis by (simp only: word_unat_eq_iff)
qed

lemma div4096: "(n::nat) div 4096 = n div 64 div 64"
  by (simp add: div_mult2_eq [symmetric])

lemma div262144: "(n::nat) div 262144 = n div 64 div 64 div 64"
  by (simp add: div_mult2_eq [symmetric])

lemma sextets:
  fixes n :: nat
  assumes "n < 16777216"
  shows "(n div 262144 mod 64) * 262144 + (n div 4096 mod 64) * 4096 + (n div 64 mod 64) * 64 + n mod 64 = n"
proof -
  define q1 where "q1 = n div 64"
  define q2 where "q2 = q1 div 64"
  define q3 where "q3 = q2 div 64"
  have e1: "n = q1 * 64 + n mod 64" by (simp add: q1_def)
  have e2: "q1 = q2 * 64 + q1 mod 64" by (simp add: q2_def)
  have e3: "q2 = q3 * 64 + q2 mod 64" by (simp add: q3_def)
  have "q3 < 64" using assms unfolding q3_def q2_def q1_def by simp
  then have e4: "q3 mod 64 = q3" by simp
  have "(q3 mod 64) * 262144 + (q2 mod 64) * 4096 + (q1 mod 64) * 64 + n mod 64 = n"
    using e1 e2 e3 e4 by linarith
  then show ?thesis
    by (simp add: div4096 div262144 q1_def q2_def q3_def)
qed

lemma pack_bound: "a < 256 \<Longrightarrow> b < 256 \<Longrightarrow> c < 256 \<Longrightarrow> a * 65536 + b * 256 + c < (16777216::nat)"
  by linarith

lemma unpack1:
  fixes a b c :: nat
  assumes "b < 256" "c < 256"
  shows "(a * 65536 + b * 256 + c) div 65536 = a"
proof -
  have e: "a * 65536 + b * 256 + c = (b * 256 + c) + a * 65536" by simp
  have s: "b * 256 + c < 65536" using assms by linarith
  show ?thesis unfolding e using s by (simp only: div_mult_self1 div_less)
qed

lemma unpack2:
  fixes a b c :: nat
  assumes "c < 256"
  shows "(a * 65536 + b * 256 + c) div 256 mod 256 = b mod 256"
proof -
  have e: "a * 65536 + b * 256 + c = c + (a * 256 + b) * 256" by simp
  have "(c + (a * 256 + b) * 256) div 256 = a * 256 + b"
    using assms by simp
  then have "(a * 65536 + b * 256 + c) div 256 = b + a * 256"
    unfolding e by simp
  then show ?thesis by (simp only: mod_mult_self1)
qed

lemma unpack3:
  fixes a b c :: nat
  shows "(a * 65536 + b * 256 + c) mod 256 = c mod 256"
proof -
  have e: "a * 65536 + b * 256 + c = c + (a * 256 + b) * 256" by simp
  show ?thesis unfolding e by (rule mod_mult_self1)
qed

lemma mod64_zero:
  fixes a b :: nat
  shows "(a * 65536 + b * 256) mod 64 = 0"
proof -
  have e: "a * 65536 + b * 256 = 0 + (a * 1024 + b * 4) * 64" by simp
  show ?thesis unfolding e by (simp only: mod_mult_self1)
qed

lemma div64_mod64_zero:
  fixes a :: nat
  shows "(a * 65536) div 64 mod 64 = 0"
proof -
  have e: "a * 65536 = (a * 1024) * 64" by simp
  have "(a * 65536) div 64 = 0 + (a * 16) * 64" unfolding e by simp
  then show ?thesis by (simp only: mod_mult_self1)
qed


lemma quantum3_encode:
  fixes a b c :: byte
  defines "n \<equiv> unat a * 65536 + unat b * 256 + unat c"
  shows "quantum3 (b64_char (n div 262144)) (b64_char (n div 4096)) (b64_char (n div 64)) (b64_char n)
         = Inr [a, b, c]"
proof -
  have n: "n < 16777216"
    unfolding n_def by (rule pack_bound) (rule byte_bound)+
  have a: "(of_nat (n div 65536) :: byte) = a"
    by (rule byte_of_mod) (simp add: n_def unpack1 byte_bound)
  have b: "(of_nat (n div 256) :: byte) = b"
    by (rule byte_of_mod) (simp add: n_def unpack2 byte_bound)
  have c: "(of_nat n :: byte) = c"
    by (rule byte_of_mod) (simp add: n_def unpack3 byte_bound)
  show ?thesis
    by (simp add: quantum3_def b64_value_char sextets [OF n] a b c)
qed


lemma quantum2_encode:
  fixes a b :: byte
  defines "n \<equiv> unat a * 65536 + unat b * 256"
  shows "quantum2 (b64_char (n div 262144)) (b64_char (n div 4096)) (b64_char (n div 64))
         = Inr [a, b]"
proof -
  have n0: "n = unat a * 65536 + unat b * 256 + 0" by (simp add: n_def)
  have n: "n < 16777216"
    unfolding n0 by (rule pack_bound) (simp_all add: byte_bound)
  have z: "n mod 64 = 0" unfolding n_def by (rule mod64_zero)
  have s: "(n div 262144 mod 64) * 262144 + (n div 4096 mod 64) * 4096 + (n div 64 mod 64) * 64 = n"
    using sextets [OF n] z by linarith
  have a: "(of_nat (n div 65536) :: byte) = a"
    by (rule byte_of_mod) (simp add: n0 unpack1 byte_bound)
  have b: "(of_nat (n div 256) :: byte) = b"
    by (rule byte_of_mod) (simp add: n0 unpack2 byte_bound)
  show ?thesis
    by (simp add: quantum2_def b64_value_char s a b)
qed

lemma quantum1_encode:
  fixes a :: byte
  defines "n \<equiv> unat a * 65536"
  shows "quantum1 (b64_char (n div 262144)) (b64_char (n div 4096)) = Inr [a]"
proof -
  have n0: "n = unat a * 65536 + 0 * 256 + 0" by (simp add: n_def)
  have n: "n < 16777216"
    unfolding n0 by (rule pack_bound) (simp_all add: byte_bound)
  have z: "n mod 64 = 0" using mod64_zero [of "unat a" 0] by (simp add: n_def)
  have z': "n div 64 mod 64 = 0" unfolding n_def by (rule div64_mod64_zero)
  have s: "(n div 262144 mod 64) * 262144 + (n div 4096 mod 64) * 4096 = n"
    using sextets [OF n] z z' by linarith
  have a: "(of_nat (n div 65536) :: byte) = a"
    by (rule byte_of_mod) (simp add: n0 unpack1 byte_bound)
  show ?thesis
    by (simp add: quantum1_def b64_value_char s a)
qed

lemma alphabet_ascii: "list_all (\<lambda>c. \<not> digit7 c) b64_alphabet"
  unfolding b64_alphabet_def by code_simp

lemma b64_char_ascii: "\<not> digit7 (b64_char v)"
proof -
  have "b64_char v \<in> set b64_alphabet"
    unfolding b64_char_def by (rule nth_mem) (simp add: length_alphabet)
  with alphabet_ascii show ?thesis by (simp only: list_all_iff) blast
qed

lemma b64encode_ascii: "py_str (b64encode bs) = Inr (b64encode bs)"
proof -
  have "list_all (\<lambda>c. \<not> digit7 c) (b64encode bs)"
    by (induction bs rule: b64encode.induct) (simp_all add: Let_def b64_char_ascii)
  then show ?thesis by (simp add: py_str_def)
qed

text \<open>
  C6. Whatever the bytes (none, or bytes that are no UTF-8 text), their base64 encoding,
  arriving as the text of a \<open>file\<close> element, is stored by \<open>UserInfo.endElement\<close> as exactly
  those bytes.
\<close>

theorem file_field_roundtrip:
  "b64decode (b64encode bs) = Inr bs
   \<and> endElement UserInfo ''file'' (b64encode bs) obj = Inr (obj(''file'' \<mapsto> PyBytes bs))"
proof -
  have roundtrip: "b64decode (b64encode bs) = Inr bs"
  proof (induction bs rule: b64encode.induct)
    case 1
    show ?case by simp
  next
    case (2 a)
    show ?case using quantum1_encode [of a] by (simp add: Let_def)
  next
    case (3 a b)
    show ?case using quantum2_encode [of a b] by (simp add: Let_def b64_char_not_pad)
  next
    case (4 a b c rest)
    show ?case using quantum3_encode [of a b c] "4.IH"
      by (simp add: Let_def b64_char_not_pad and_then_def)
  qed
  then show ?thesis
    by (simp add: b64encode_ascii and_then_def)
qed

theorem file_field_roundtrip_witness:
  "b64encode [0, 255, 128, 10] = ''AP+ACg==''
   \<and> b64decode ''AP+ACg=='' = Inr [0, 255, 128, 10]
   \<and> endElement UserInfo ''file'' ''AP+ACg=='' Map.empty = Inr [''file'' \<mapsto> PyBytes [0, 255, 128, 10]]
   \<and> endElement UserInfo ''file'' [] Map.empty = Inr [''file'' \<mapsto> PyBytes []]"
proof -
  have e: "b64encode [0, 255, 128, 10] = ''AP+ACg==''"
    by (simp add: b64_char_def b64_alphabet_def)
  have e0: "b64encode [] = []" by simp
  show ?thesis
    using file_field_roundtrip [of "[0, 255, 128, 10]" Map.empty]
      file_field_roundtrip [of "[]" Map.empty]
    unfolding e e0 by simp
qed

subsection \<open>Decoding one object\<close>

lemma py_str_Inr: "py_str t = Inr s \<Longrightarrow> s = t"
  by (simp add: py_str_def split: if_splits)


lemma and_then_Inr: "and_then r f = Inr y \<Longrightarrow> \<exists>x. r = Inr x \<and> f x = Inr y"
  by (cases r) (simp_all add: and_then_def)





lemma endElement_User_text:
  assumes "endElement UserInfo n t obj = Inr obj'"
    and "tag \<in> {''username'', ''accesskey'', ''secretkey''}"
  shows "obj' tag = (if n = tag then Some (PyStr t) else obj tag)"
  using assms
  by (auto simp: and_then_def split: if_splits sum.splits dest: py_str_Inr)

lemma endElement_User_file:
  assumes "endElement UserInfo n t obj = Inr obj'"
  shows "if n = ''file'' then (\<exists>bs. b64decode t = Inr bs \<and> obj' ''file'' = Some (PyBytes bs))
         else obj' ''file'' = obj ''file''"
  using assms
  by (auto simp: and_then_def split: if_splits sum.splits dest: py_str_Inr)


lemma populate_User_text:
  assumes "populate UserInfo evs obj = Inr obj'"
    and "tag \<in> {''username'', ''accesskey'', ''secretkey''}"
  shows "obj' tag = (case last_text tag evs of Some t \<Rightarrow> Some (PyStr t) | None \<Rightarrow> obj tag)"
  using assms
proof (induction evs arbitrary: obj)
  case Nil
  then show ?case by simp
next
  case (Cons e es)
  show ?case
  proof (cases e)
    case (ElementStart n)
    with Cons show ?thesis by simp
  next
    case (ElementEnd n t)
    with Cons.prems obtain o1 where o1: "endElement UserInfo n t obj = Inr o1"
      and rest: "populate UserInfo es o1 = Inr obj'"
      by (auto dest: and_then_Inr)
    from Cons.IH [OF rest Cons.prems(2)] endElement_User_text [OF o1 Cons.prems(2)] ElementEnd
    show ?thesis by (simp split: option.splits)
  qed
qed

lemma populate_User_file:
  assumes "populate UserInfo evs obj = Inr obj'"
  shows "case last_text ''file'' evs of
           Some t \<Rightarrow> (\<exists>bs. b64decode t = Inr bs \<and> obj' ''file'' = Some (PyBytes bs))
         | None \<Rightarrow> obj' ''file'' = obj ''file''"
  using assms
proof (induction evs arbitrary: obj)
  case Nil
  then show ?case by simp
next
  case (Cons e es)
  show ?case
  proof (cases e)
    case (ElementStart n)
    with Cons show ?thesis by simp
  next
    case (ElementEnd n t)
    with Cons.prems obtain o1 where o1: "endElement UserInfo n t obj = Inr o1"
      and rest: "populate UserInfo es o1 = Inr obj'"
      by (auto dest: and_then_Inr)
    from Cons.IH [OF rest] endElement_User_file [OF o1] ElementEnd
    show ?thesis by (auto split: option.splits if_splits)
  qed
qed







lemma b64decode_sample: "b64decode ''AP+ACg=='' = Inr [0, 255, 128, 10]"
  by (simp add: quantum3_def quantum1_def b64_value_def b64_alphabet_def and_then_def)



subsection \<open>The client: users, scoped connections, credential bundles\<close>

lemma make_request_Body:
  "svc (sent st) \<lparr>target = c, action = a, params = ps\<rparr> = Body evs \<Longrightarrow>
   make_request svc c a ps st = (Inr evs, st\<lparr>sent := sent st @ [\<lparr>target = c, action = a, params = ps\<rparr>]\<rparr>)"
  by (simp add: make_request_def)

lemma make_request_state:
  "snd (make_request svc c a ps st) = st\<lparr>sent := sent st @ [\<lparr>target = c, action = a, params = ps\<rparr>]\<rparr>"
  by (simp add: make_request_def Let_def)

lemma get_object_Body:
  "svc (sent st) \<lparr>target = c, action = a, params = ps\<rparr> = Body evs \<Longrightarrow>
   get_object svc c a ps T st
     = (decode_single T c evs, st\<lparr>sent := sent st @ [\<lparr>target = c, action = a, params = ps\<rparr>]\<rparr>)"
  by (simp add: get_object_def make_request_Body)

lemma get_object_state:
  "snd (get_object svc c a ps T st) = st\<lparr>sent := sent st @ [\<lparr>target = c, action = a, params = ps\<rparr>]\<rparr>"
  using make_request_state [of svc c a ps st]
  by (cases "make_request svc c a ps st") (auto simp: get_object_def split: sum.splits)

lemma get_list_state:
  "snd (get_list svc c a ps m st) = st\<lparr>sent := sent st @ [\<lparr>target = c, action = a, params = ps\<rparr>]\<rparr>"
  using make_request_state [of svc c a ps st]
  by (cases "make_request svc c a ps st") (auto simp: get_list_def split: sum.splits)

lemma get_status_state:
  "snd (get_status svc c a ps st) = st\<lparr>sent := sent st @ [\<lparr>target = c, action = a, params = ps\<rparr>]\<rparr>"
  using make_request_state [of svc c a ps st]
  by (cases "make_request svc c a ps st") (auto simp: get_status_def split: sum.splits)

lemma get_user_state:
  "snd (get_user svc name st)
     = st\<lparr>sent := sent st @ [\<lparr>target = apiconn (self st), action = ''DescribeUser'',
                                 params = [(''Name'', Some name)]\<rparr>]\<rparr>"
  using get_object_state [of svc "apiconn (self st)" "''DescribeUser''" "[(''Name'', Some name)]" UserInfo st]
  by (cases "get_object svc (apiconn (self st)) ''DescribeUser'' [(''Name'', Some name)] UserInfo st")
     (auto simp: get_user_def split: sum.splits)

lemma get_project_state:
  "snd (get_project svc name st)
     = st\<lparr>sent := sent st @ [\<lparr>target = apiconn (self st), action = ''DescribeProject'',
                                 params = [(''Name'', Some name)]\<rparr>]\<rparr>"
  using get_object_state [of svc "apiconn (self st)" "''DescribeProject''" "[(''Name'', Some name)]" ProjectInfo st]
  by (cases "get_object svc (apiconn (self st)) ''DescribeProject'' [(''Name'', Some name)] ProjectInfo st")
     (auto simp: get_project_def split: sum.splits)

lemma get_zip_state:
  "snd (get_zip svc name st)
     = st\<lparr>sent := sent st @ [\<lparr>target = apiconn (self st), action = ''GenerateX509ForUser'',
                                 params = [(''Name'', Some name)]\<rparr>]\<rparr>"
  using get_object_state [of svc "apiconn (self st)" "''GenerateX509ForUser''" "[(''Name'', Some name)]" UserInfo st]
  by (cases "get_object svc (apiconn (self st)) ''GenerateX509ForUser'' [(''Name'', Some name)] UserInfo st")
     (auto simp: get_zip_def split: sum.splits)

lemma connection_for_state:
  "snd (connection_for svc name kw st) = snd (get_user svc name st)"
  by (cases "get_user svc name st") (auto simp: connection_for_def split: sum.splits option.splits)

lemma has_user_state:
  "snd (has_user svc name st) = snd (get_user svc name st)"
  by (cases "get_user svc name st") (auto simp: has_user_def)

lemma decode_single_Inr:
  "decode_single T c evs = Inr obj \<Longrightarrow> well_formed evs \<and> populate T evs (init_object T c) = Inr obj"
  by (simp add: decode_single_def split: if_splits)


lemma last_text_None: "\<forall>t. ElementEnd tag t \<notin> set evs \<Longrightarrow> last_text tag evs = None"
proof (induction evs)
  case Nil
  show ?case by simp
next
  case (Cons e es)
  then show ?case by (cases e) auto
qed

lemma demo_decodes:
  "\<exists>user. decode_single UserInfo (apiconn demo_client) alice_doc = Inr user"
  by (simp add: decode_single_def alice_doc_def and_then_def py_str_def b64decode_sample
        del: b64decode.simps)

text \<open>
  C1 (as amended). \<open>get_user\<close> tests \<open>user.username != None\<close>. When the answer decodes
  and has no \<open>username\<close> element, the attribute is still the \<open>None\<close> of \<open>__init__\<close> and
  the result is absent (\<open>None\<close>, not an error). When it has one, whatever its text, the
  empty text included, the result is the decoded record. The claim as written has the empty
  text give an absent result.
\<close>

theorem get_user_absent_iff_unset:
  assumes body: "svc (sent st) \<lparr>target = apiconn (self st), action = ''DescribeUser'',
                                 params = [(''Name'', Some name)]\<rparr> = Body evs"
    and dec: "decode_single UserInfo (apiconn (self st)) evs = Inr user"
  shows "(last_text ''username'' evs = None \<longrightarrow>
            user ''username'' = Some PyNone \<and> fst (get_user svc name st) = Inr None)
       \<and> (\<forall>t. last_text ''username'' evs = Some t \<longrightarrow>
            user ''username'' = Some (PyStr t) \<and> fst (get_user svc name st) = Inr (Some user))"
proof -
  from decode_single_Inr [OF dec]
  have p: "populate UserInfo evs (init_object UserInfo (apiconn (self st))) = Inr user" by simp
  have u: "user ''username'' = (case last_text ''username'' evs of
                                  Some t \<Rightarrow> Some (PyStr t) | None \<Rightarrow> Some PyNone)"
    using populate_User_text [OF p, of "''username''"] by (simp split: option.splits)
  have g: "fst (get_user svc name st)
             = and_then (getattr ''UserInfo'' user ''username'')
                 (\<lambda>v. if v \<noteq> PyNone then Inr (Some user) else Inr None)"
    by (simp add: get_user_def get_object_Body [of svc st, OF body] dec)
  show ?thesis
  proof (cases "last_text ''username'' evs")
    case None
    with u g show ?thesis by (simp add: getattr_def and_then_def)
  next
    case (Some t)
    with u g show ?thesis by (simp add: getattr_def and_then_def)
  qed
qed

theorem get_user_absent_iff_unset_witness:
  "fst (get_user (fixed_service no_user_doc) ''bob'' demo_state) = Inr None
   \<and> (\<exists>user. fst (get_user (fixed_service alice_doc) ''alice'' demo_state) = Inr (Some user)
         \<and> user ''username'' = Some (PyStr ''alice''))"
proof -
  have c: "apiconn (self demo_state) = apiconn demo_client" by (simp add: demo_state_def)
  have b1: "fixed_service no_user_doc (sent demo_state)
              \<lparr>target = apiconn (self demo_state), action = ''DescribeUser'',
               params = [(''Name'', Some ''bob'')]\<rparr> = Body no_user_doc"
    by (simp add: fixed_service_def)
  have d1: "decode_single UserInfo (apiconn (self demo_state)) no_user_doc
              = Inr (init_object UserInfo (apiconn (self demo_state)))"
    by (simp add: decode_single_def no_user_doc_def and_then_def)
  have l1: "last_text ''username'' no_user_doc = None" by (simp add: no_user_doc_def)
  have b2: "fixed_service alice_doc (sent demo_state)
              \<lparr>target = apiconn (self demo_state), action = ''DescribeUser'',
               params = [(''Name'', Some ''alice'')]\<rparr> = Body alice_doc"
    by (simp add: fixed_service_def)
  from demo_decodes c obtain user where
    d2: "decode_single UserInfo (apiconn (self demo_state)) alice_doc = Inr user" by auto
  have l2: "last_text ''username'' alice_doc = Some ''alice''" by (simp add: alice_doc_def)
  from get_user_absent_iff_unset [of "fixed_service no_user_doc" demo_state "''bob''" no_user_doc, OF b1 d1] l1
  have "fst (get_user (fixed_service no_user_doc) ''bob'' demo_state) = Inr None" by simp
  moreover from get_user_absent_iff_unset [of "fixed_service alice_doc" demo_state "''alice''" alice_doc, OF b2 d2] l2
  have "fst (get_user (fixed_service alice_doc) ''alice'' demo_state) = Inr (Some user)
        \<and> user ''username'' = Some (PyStr ''alice'')" by simp
  ultimately show ?thesis by blast
qed

text \<open>
  The answer \<open><username></username>\<close>: \<open>get_user\<close> returns the record, whose name is the
  empty string.
\<close>

theorem empty_username_counterexample:
  "last_text ''username'' empty_name_doc = Some []
   \<and> fst (get_user (fixed_service empty_name_doc) ''bob'' demo_state)
       = Inr (Some ((init_object UserInfo (apiconn demo_client))(''username'' \<mapsto> PyStr [])))"
  by (simp add: empty_name_doc_def get_user_def get_object_def make_request_def
        fixed_service_def demo_state_def decode_single_def and_then_def py_str_def getattr_def)


text \<open>
  C2. When \<open>get_user\<close> finds no user (its result is \<open>None\<close>), \<open>connection_for\<close> fails
  with \<open>UnknownUserKind\<close>, and the one request it has sent is the \<open>DescribeUser\<close> of
  \<open>get_user\<close>, on the client's own connection, whose path is \<open>/services/Admin\<close>: nothing
  is sent on \<open>/services/Cloud\<close>.
\<close>

theorem connection_for_unknown_user:
  assumes absent: "fst (get_user svc username st) = Inr None"
    and built: "self st = NovaAdminClient_init ip reg access_key secret_key kw0"
  shows "fst (connection_for svc username kw st) = Inl UnknownUserKind
       \<and> sent (snd (connection_for svc username kw st))
           = sent st @ [\<lparr>target = apiconn (self st), action = ''DescribeUser'',
                          params = [(''Name'', Some username)]\<rparr>]
       \<and> path (apiconn (self st)) = ''/services/Admin''
       \<and> list_all (\<lambda>r. path (target r) \<noteq> ''/services/Cloud'')
            (drop (length (sent st)) (sent (snd (connection_for svc username kw st))))"
proof -
  obtain r st' where g: "get_user svc username st = (r, st')" by (cases "get_user svc username st")
  with absent have r: "r = Inr None" by simp
  have res: "fst (connection_for svc username kw st) = Inl UnknownUserKind"
    by (simp add: connection_for_def g r)
  have log: "sent (snd (connection_for svc username kw st))
           = sent st @ [\<lparr>target = apiconn (self st), action = ''DescribeUser'',
                          params = [(''Name'', Some username)]\<rparr>]"
    by (simp add: connection_for_state get_user_state)
  have pth: "path (apiconn (self st)) = ''/services/Admin''"
    by (simp add: built NovaAdminClient_init_def connect_ec2_def)
  from res log pth show ?thesis by simp
qed

theorem connection_for_unknown_user_witness:
  "fst (get_user (fixed_service no_user_doc) ''bob'' demo_state) = Inr None
   \<and> fst (connection_for (fixed_service no_user_doc) ''bob'' [] demo_state) = Inl UnknownUserKind
   \<and> map action (sent (snd (connection_for (fixed_service no_user_doc) ''bob'' [] demo_state)))
       = [''DescribeUser'']
   \<and> map (\<lambda>r. path (target r))
         (sent (snd (connection_for (fixed_service no_user_doc) ''bob'' [] demo_state)))
       = [''/services/Admin'']"
proof -
  have a: "fst (get_user (fixed_service no_user_doc) ''bob'' demo_state) = Inr None"
    by (simp add: no_user_doc_def get_user_def get_object_def make_request_def
          fixed_service_def demo_state_def decode_single_def and_then_def getattr_def)
  have b: "self demo_state = NovaAdminClient_init ''127.0.0.1'' ''nova'' ''admin'' ''admin'' []"
    by (simp add: demo_state_def demo_client_def)
  have s: "sent demo_state = []" by (simp add: demo_state_def)
  from connection_for_unknown_user [OF a b, of "[]"] a s show ?thesis by simp
qed

text \<open>
  C8. \<open>get_zip\<close> decodes the answer to \<open>GenerateX509ForUser\<close> as one \<open>UserInfo\<close> and
  returns the value of its \<open>file\<close> attribute, not the record: the bytes that the text of
  the last \<open>file\<close> element encodes.
\<close>

theorem get_zip_returns_file:
  assumes body: "svc (sent st) \<lparr>target = apiconn (self st), action = ''GenerateX509ForUser'',
                                 params = [(''Name'', Some username)]\<rparr> = Body evs"
    and dec: "decode_single UserInfo (apiconn (self st)) evs = Inr user"
  shows "fst (get_zip svc username st) = getattr ''UserInfo'' user ''file''
       \<and> (\<forall>t. last_text ''file'' evs = Some t \<longrightarrow>
            (\<exists>bs. b64decode t = Inr bs \<and> user ''file'' = Some (PyBytes bs)
                  \<and> fst (get_zip svc username st) = Inr (PyBytes bs)))"
proof -
  from decode_single_Inr [OF dec]
  have p: "populate UserInfo evs (init_object UserInfo (apiconn (self st))) = Inr user" by simp
  have g: "fst (get_zip svc username st) = getattr ''UserInfo'' user ''file''"
    by (simp add: get_zip_def get_object_Body [of svc st, OF body] dec)
  have "\<exists>bs. b64decode t = Inr bs \<and> user ''file'' = Some (PyBytes bs)
              \<and> fst (get_zip svc username st) = Inr (PyBytes bs)"
    if "last_text ''file'' evs = Some t" for t
    using populate_User_file [OF p] that g by (auto simp: getattr_def)
  with g show ?thesis by blast
qed

theorem get_zip_returns_file_witness:
  "last_text ''file'' alice_doc = Some ''AP+ACg==''
   \<and> fst (get_zip (fixed_service alice_doc) ''alice'' demo_state) = Inr (PyBytes [0, 255, 128, 10])"
proof -
  have c: "apiconn (self demo_state) = apiconn demo_client" by (simp add: demo_state_def)
  have b: "fixed_service alice_doc (sent demo_state)
              \<lparr>target = apiconn (self demo_state), action = ''GenerateX509ForUser'',
               params = [(''Name'', Some ''alice'')]\<rparr> = Body alice_doc"
    by (simp add: fixed_service_def)
  from demo_decodes c obtain user where
    d: "decode_single UserInfo (apiconn (self demo_state)) alice_doc = Inr user" by auto
  have l: "last_text ''file'' alice_doc = Some ''AP+ACg==''" by (simp add: alice_doc_def)
  from get_zip_returns_file [of "fixed_service alice_doc" demo_state "''alice''" alice_doc, OF b d] l
  show ?thesis by (auto simp: b64decode_sample getattr_def simp del: b64decode.simps)
qed

text \<open>
  C10. A fresh \<open>UserInfo\<close> has the attributes \<open>connection\<close>, \<open>username\<close> and
  \<open>endpoint\<close> and no other. When the answer decodes and has no \<open>file\<close> element,
  \<open>get_zip\<close> fails with the \<open>AttributeError\<close> of reading \<open>file\<close>; it does not return
  \<open>None\<close>.
\<close>

theorem get_zip_without_file:
  assumes body: "svc (sent st) \<lparr>target = apiconn (self st), action = ''GenerateX509ForUser'',
                                 params = [(''Name'', Some username)]\<rparr> = Body evs"
    and dec: "decode_single UserInfo (apiconn (self st)) evs = Inr user"
    and nofile: "\<forall>t. ElementEnd ''file'' t \<notin> set evs"
  shows "fst (get_zip svc username st) = Inl (AttributeError ''UserInfo'' ''file'')
       \<and> dom (init_object UserInfo c) = {''connection'', ''username'', ''endpoint''}"
proof -
  from decode_single_Inr [OF dec]
  have p: "populate UserInfo evs (init_object UserInfo (apiconn (self st))) = Inr user" by simp
  from last_text_None [OF nofile] populate_User_file [OF p]
  have "user ''file'' = None" by simp
  then have "fst (get_zip svc username st) = Inl (AttributeError ''UserInfo'' ''file'')"
    by (simp add: get_zip_def get_object_Body [of svc st, OF body] dec getattr_def)
  moreover have "dom (init_object UserInfo c) = {''connection'', ''username'', ''endpoint''}"
    by auto
  ultimately show ?thesis by simp
qed

theorem get_zip_without_file_witness:
  "(\<forall>t. ElementEnd ''file'' t \<notin> set empty_name_doc)
   \<and> fst (get_zip (fixed_service empty_name_doc) ''bob'' demo_state)
       = Inl (AttributeError ''UserInfo'' ''file'')"
proof -
  have b: "fixed_service empty_name_doc (sent demo_state)
              \<lparr>target = apiconn (self demo_state), action = ''GenerateX509ForUser'',
               params = [(''Name'', Some ''bob'')]\<rparr> = Body empty_name_doc"
    by (simp add: fixed_service_def)
  have d: "\<exists>user. decode_single UserInfo (apiconn (self demo_state)) empty_name_doc = Inr user"
    by (simp add: decode_single_def empty_name_doc_def and_then_def py_str_def)
  then obtain user where
    d': "decode_single UserInfo (apiconn (self demo_state)) empty_name_doc = Inr user" by blast
  have n: "\<forall>t. ElementEnd ''file'' t \<notin> set empty_name_doc" by (simp add: empty_name_doc_def)
  from get_zip_without_file [of "fixed_service empty_name_doc" demo_state "''bob''" empty_name_doc,
      OF b d' n] n
  show ?thesis by simp
qed

subsection \<open>The client: what an operation leaves unchanged, role operations\<close>

text \<open>
  C9. No method of \<open>NovaAdminClient\<close> assigns to \<open>self\<close>: after every operation the
  client (controller address, region, access key, secret key, connection) is the one before
  it; only the record of requests sent grows. The fields are those \<open>__init__\<close> set from
  its arguments.
\<close>

theorem client_configuration_unchanged:
  "self (snd (get_users svc st)) = self st
   \<and> self (snd (get_user svc name st)) = self st
   \<and> self (snd (has_user svc name st)) = self st
   \<and> self (snd (create_user svc name st)) = self st
   \<and> self (snd (delete_user svc name st)) = self st
   \<and> self (snd (add_user_role svc user role project st)) = self st
   \<and> self (snd (remove_user_role svc user role project st)) = self st
   \<and> self (snd (modify_user_role svc user role project operation st)) = self st
   \<and> self (snd (get_projects svc st)) = self st
   \<and> self (snd (get_project svc name st)) = self st
   \<and> self (snd (create_project svc name manager description members st)) = self st
   \<and> self (snd (delete_project svc name st)) = self st
   \<and> self (snd (modify_project_user svc user pname operation st)) = self st
   \<and> self (snd (get_zip svc name st)) = self st
   \<and> self (snd (get_hosts svc st)) = self st
   \<and> self (snd (connection_for svc name kw st)) = self st
   \<and> NovaAdminClient_init ip reg access_key secret_key kw
       = \<lparr>clc_ip = ip, region = reg, access = access_key, secret = secret_key,
          apiconn = \<lparr>aws_access_key_id = access_key, aws_secret_access_key = secret_key,
                     is_secure = False,
                     conn_region = \<lparr>region_name = reg, region_endpoint = ip\<rparr>,
                     port = 8773, path = ''/services/Admin'', kwargs = kw,
                     APIVersion = Some ''nova''\<rparr>\<rparr>"
proof -
  have lists: "self (snd (get_users svc st)) = self st"
    "self (snd (get_projects svc st)) = self st"
    "self (snd (get_hosts svc st)) = self st"
    by (simp_all add: get_users_def get_projects_def get_hosts_def get_list_state)
  have gets: "self (snd (get_user svc name st)) = self st"
    "self (snd (has_user svc name st)) = self st"
    "self (snd (get_project svc name st)) = self st"
    "self (snd (get_zip svc name st)) = self st"
    "self (snd (connection_for svc name kw st)) = self st"
    by (simp_all add: get_user_state has_user_state get_project_state get_zip_state
          connection_for_state)
  have objects: "self (snd (create_user svc name st)) = self st"
    "self (snd (delete_user svc name st)) = self st"
    "self (snd (create_project svc name manager description members st)) = self st"
    "self (snd (delete_project svc name st)) = self st"
    by (simp_all add: create_user_def delete_user_def create_project_def delete_project_def
          get_object_state)
  have statuses: "self (snd (modify_user_role svc user role project operation st)) = self st"
    "self (snd (add_user_role svc user role project st)) = self st"
    "self (snd (remove_user_role svc user role project st)) = self st"
    "self (snd (modify_project_user svc user pname operation st)) = self st"
    by (simp_all add: modify_user_role_def add_user_role_def remove_user_role_def
          modify_project_user_def get_status_state)
  have init: "NovaAdminClient_init ip reg access_key secret_key kw
       = \<lparr>clc_ip = ip, region = reg, access = access_key, secret = secret_key,
          apiconn = \<lparr>aws_access_key_id = access_key, aws_secret_access_key = secret_key,
                     is_secure = False,
                     conn_region = \<lparr>region_name = reg, region_endpoint = ip\<rparr>,
                     port = 8773, path = ''/services/Admin'', kwargs = kw,
                     APIVersion = Some ''nova''\<rparr>\<rparr>"
    by (simp add: NovaAdminClient_init_def connect_ec2_def)
  from lists gets objects statuses init show ?thesis by (simp only: simp_thms)
qed

theorem client_configuration_unchanged_witness:
  "self (snd (get_user (fixed_service alice_doc) ''alice'' demo_state)) = demo_client
   \<and> self (snd (connection_for (fixed_service alice_doc) ''alice'' [] demo_state)) = demo_client
   \<and> self (snd (add_user_role (fixed_service no_user_doc) ''alice'' ''sysadmin'' None demo_state))
       = demo_client
   \<and> self (snd (get_hosts (fixed_service no_user_doc) demo_state)) = demo_client
   \<and> clc_ip demo_client = ''127.0.0.1'' \<and> region demo_client = ''nova''
   \<and> access demo_client = ''admin'' \<and> secret demo_client = ''admin''
   \<and> path (apiconn demo_client) = ''/services/Admin''"
proof -
  have s: "self demo_state = demo_client" by (simp add: demo_state_def)
  from client_configuration_unchanged [where svc = "fixed_service alice_doc" and st = demo_state
        and name = "''alice''" and kw = "[]" and ip = "''127.0.0.1''" and reg = "''nova''"
        and access_key = "''admin''" and secret_key = "''admin''"]
    client_configuration_unchanged [where svc = "fixed_service no_user_doc" and st = demo_state
        and user = "''alice''" and role = "''sysadmin''" and project = None]
  show ?thesis unfolding s demo_client_def by simp
qed

text \<open>
  C7. \<open>add_user_role\<close> and \<open>remove_user_role\<close> are \<open>modify_user_role\<close> with the
  operation \<open>add\<close> and \<open>remove\<close>: the same result, the same state, and one
  \<open>ModifyUserRole\<close> request whose \<open>Operation\<close> parameter is that word. The result is
  that of \<open>get_status\<close>, a boolean or an error.
\<close>

theorem role_operations_share_modify_user_role:
  "add_user_role svc user role project st = modify_user_role svc user role project ''add'' st
   \<and> remove_user_role svc user role project st
       = modify_user_role svc user role project ''remove'' st
   \<and> modify_user_role svc user role project operation st
       = get_status svc (apiconn (self st)) ''ModifyUserRole''
           [(''User'', Some user), (''Role'', Some role), (''Project'', project),
            (''Operation'', Some operation)] st
   \<and> sent (snd (add_user_role svc user role project st))
       = sent st @ [\<lparr>target = apiconn (self st), action = ''ModifyUserRole'',
                      params = [(''User'', Some user), (''Role'', Some role),
                                (''Project'', project), (''Operation'', Some ''add'')]\<rparr>]
   \<and> sent (snd (remove_user_role svc user role project st))
       = sent st @ [\<lparr>target = apiconn (self st), action = ''ModifyUserRole'',
                      params = [(''User'', Some user), (''Role'', Some role),
                                (''Project'', project), (''Operation'', Some ''remove'')]\<rparr>]"
  by (simp add: add_user_role_def remove_user_role_def modify_user_role_def get_status_state)

theorem role_operations_witness:
  "fst (add_user_role (fixed_service (status_doc ''true'')) ''alice'' ''sysadmin'' None demo_state)
     = Inr True
   \<and> map params (sent (snd (add_user_role (fixed_service (status_doc ''true'')) ''alice''
                               ''sysadmin'' None demo_state)))
     = [[(''User'', Some ''alice''), (''Role'', Some ''sysadmin''), (''Project'', None),
         (''Operation'', Some ''add'')]]
   \<and> map params (sent (snd (remove_user_role (fixed_service (status_doc ''true'')) ''alice''
                               ''sysadmin'' (Some ''proj'') demo_state)))
     = [[(''User'', Some ''alice''), (''Role'', Some ''sysadmin''), (''Project'', Some ''proj''),
         (''Operation'', Some ''remove'')]]"
proof -
  have s: "sent demo_state = []" by (simp add: demo_state_def)
  have r: "fst (modify_user_role (fixed_service (status_doc ''true'')) ''alice'' ''sysadmin'' None
             ''add'' demo_state) = Inr True"
    by (simp add: modify_user_role_def get_status_def make_request_def fixed_service_def
          decode_status_def status_doc_def lower_char_def)
  note a = role_operations_share_modify_user_role [where svc = "fixed_service (status_doc ''true'')"
        and user = "''alice''" and role = "''sysadmin''" and project = None and st = demo_state]
  note b = role_operations_share_modify_user_role [where svc = "fixed_service (status_doc ''true'')"
        and user = "''alice''" and role = "''sysadmin''" and project = "Some ''proj''"
        and st = demo_state]
  note a1 = a [THEN conjunct1]
  note a4 = a [THEN conjunct2, THEN conjunct2, THEN conjunct2, THEN conjunct1]
  note b5 = b [THEN conjunct2, THEN conjunct2, THEN conjunct2, THEN conjunct2]
  from a1 r have c1: "fst (add_user_role (fixed_service (status_doc ''true'')) ''alice''
      ''sysadmin'' None demo_state) = Inr True"
    by (simp only:)
  have c2: "map params (sent (snd (add_user_role (fixed_service (status_doc ''true''))
      ''alice'' ''sysadmin'' None demo_state)))
     = [[(''User'', Some ''alice''), (''Role'', Some ''sysadmin''), (''Project'', None),
         (''Operation'', Some ''add'')]]"
    unfolding a4 s by simp
  have c3: "map params (sent (snd (remove_user_role (fixed_service (status_doc ''true''))
      ''alice'' ''sysadmin'' (Some ''proj'') demo_state)))
     = [[(''User'', Some ''alice''), (''Role'', Some ''sysadmin''), (''Project'', Some ''proj''),
         (''Operation'', Some ''remove'')]]"
    unfolding b5 s by simp
  from c1 c2 c3 show ?thesis by (intro conjI)
qed

subsection \<open>Status answers\<close>

lemma status_text_None: "\<forall>t. ElementEnd ''return'' t \<notin> set evs \<Longrightarrow> status_text evs = None"
proof (induction evs)
  case Nil
  show ?case by simp
next
  case (Cons e es)
  then show ?case by (cases e) auto
qed

lemma status_text_first: "status_text evs = Some t \<Longrightarrow> ElementEnd ''return'' t \<in> set evs"
proof (induction evs)
  case Nil
  then show ?case by simp
next
  case (Cons e es)
  then show ?case by (cases e) (auto split: if_splits)
qed

lemma status_text_exists:
  "ElementEnd ''return'' t \<in> set evs \<Longrightarrow> \<exists>t'. status_text evs = Some t'"
proof (induction evs)
  case Nil
  then show ?case by simp
next
  case (Cons e es)
  then show ?case by (cases e) auto
qed

lemma status_text_unique:
  assumes "ElementEnd ''return'' t \<in> set evs"
    and "\<forall>t'. ElementEnd ''return'' t' \<in> set evs \<longrightarrow> t' = t"
  shows "status_text evs = Some t"
proof -
  from status_text_exists [OF assms(1)] obtain t' where t': "status_text evs = Some t'" by blast
  from status_text_first [OF t'] assms(2) have "t' = t" by blast
  with t' show ?thesis by (simp only:)
qed

lemma get_status_Body:
  "svc (sent st) \<lparr>target = c, action = a, params = ps\<rparr> = Body evs \<Longrightarrow>
   fst (get_status svc c a ps st) = decode_status evs"
  by (simp add: get_status_def make_request_def)

text \<open>
  C4. On a well-formed document whose \<open>return\<close> element has a text that is \<open>true\<close> in
  lower case, \<open>decode_status\<close> yields true; on \<open>false\<close>, false; on a document with no
  \<open>return\<close> element it fails with \<open>MissingStatusKind\<close>. \<open>modify_user_role\<close> and
  \<open>modify_project_user\<close> return what \<open>decode_status\<close> makes of the answer.
\<close>

theorem decode_status_return:
  assumes wf: "well_formed evs"
  shows "(ElementEnd ''return'' t \<in> set evs
            \<and> (\<forall>t'. ElementEnd ''return'' t' \<in> set evs \<longrightarrow> t' = t)
            \<and> map lower_char t = ''true'' \<longrightarrow> decode_status evs = Inr True)
       \<and> (ElementEnd ''return'' t \<in> set evs
            \<and> (\<forall>t'. ElementEnd ''return'' t' \<in> set evs \<longrightarrow> t' = t)
            \<and> map lower_char t = ''false'' \<longrightarrow> decode_status evs = Inr False)
       \<and> ((\<forall>t'. ElementEnd ''return'' t' \<notin> set evs) \<longrightarrow> decode_status evs = Inl MissingStatusKind)
       \<and> (svc (sent st) \<lparr>target = apiconn (self st), action = ''ModifyUserRole'',
             params = [(''User'', Some user), (''Role'', Some role), (''Project'', project),
                       (''Operation'', Some operation)]\<rparr> = Body evs
            \<longrightarrow> fst (modify_user_role svc user role project operation st) = decode_status evs)
       \<and> (svc (sent st) \<lparr>target = apiconn (self st), action = ''ModifyProjectUser'',
             params = [(''User'', Some user), (''Project'', Some pname),
                       (''Operation'', Some operation)]\<rparr> = Body evs
            \<longrightarrow> fst (modify_project_user svc user pname operation st) = decode_status evs)"
proof -
  have yes: "decode_status evs = Inr True"
    if "ElementEnd ''return'' t \<in> set evs
          \<and> (\<forall>t'. ElementEnd ''return'' t' \<in> set evs \<longrightarrow> t' = t)
          \<and> map lower_char t = ''true''"
  proof -
    from that have low: "map lower_char t = ''true''" by blast
    from that status_text_unique [of t evs] have "status_text evs = Some t" by blast
    with wf low show ?thesis by (simp add: decode_status_def)
  qed
  have no: "decode_status evs = Inr False"
    if "ElementEnd ''return'' t \<in> set evs
          \<and> (\<forall>t'. ElementEnd ''return'' t' \<in> set evs \<longrightarrow> t' = t)
          \<and> map lower_char t = ''false''"
  proof -
    from that have low: "map lower_char t = ''false''" by blast
    from that status_text_unique [of t evs] have "status_text evs = Some t" by blast
    with wf low show ?thesis by (simp add: decode_status_def)
  qed
  have missing: "decode_status evs = Inl MissingStatusKind"
    if "\<forall>t'. ElementEnd ''return'' t' \<notin> set evs"
    using status_text_None [OF that] wf by (simp add: decode_status_def)
  have role: "fst (modify_user_role svc user role project operation st) = decode_status evs"
    if "svc (sent st) \<lparr>target = apiconn (self st), action = ''ModifyUserRole'',
             params = [(''User'', Some user), (''Role'', Some role), (''Project'', project),
                       (''Operation'', Some operation)]\<rparr> = Body evs"
    using get_status_Body [of svc st, OF that] by (simp add: modify_user_role_def)
  have member: "fst (modify_project_user svc user pname operation st) = decode_status evs"
    if "svc (sent st) \<lparr>target = apiconn (self st), action = ''ModifyProjectUser'',
             params = [(''User'', Some user), (''Project'', Some pname),
                       (''Operation'', Some operation)]\<rparr> = Body evs"
    using get_status_Body [of svc st, OF that] by (simp add: modify_project_user_def)
  from yes no missing role member show ?thesis by blast
qed

theorem decode_status_return_witness:
  "well_formed (status_doc ''True'') \<and> decode_status (status_doc ''True'') = Inr True
   \<and> decode_status (status_doc ''false'') = Inr False
   \<and> well_formed no_user_doc \<and> decode_status no_user_doc = Inl MissingStatusKind
   \<and> fst (modify_user_role (fixed_service (status_doc ''True'')) ''alice'' ''sysadmin'' None
            ''add'' demo_state) = Inr True
   \<and> fst (modify_project_user (fixed_service (status_doc ''false'')) ''alice'' ''proj''
            ''remove'' demo_state) = Inr False"
proof -
  have wt: "well_formed (status_doc t)" for t by (simp add: status_doc_def)
  have wn: "well_formed no_user_doc" by (simp add: no_user_doc_def)
  have mem1: "ElementEnd ''return'' t \<in> set (status_doc t)" for t
    by (simp add: status_doc_def)
  have mem2: "\<forall>t'. ElementEnd ''return'' t' \<in> set (status_doc t) \<longrightarrow> t' = t" for t
    by (simp add: status_doc_def)
  have lt: "map lower_char ''True'' = ''true''" by (simp add: lower_char_def)
  have lf: "map lower_char ''false'' = ''false''" by (simp add: lower_char_def)
  have nr: "\<forall>t'. ElementEnd ''return'' t' \<notin> set no_user_doc" by (simp add: no_user_doc_def)
  have svc: "fixed_service d lg r = Body d" for d lg r by (simp add: fixed_service_def)
  note yes = decode_status_return [OF wt, where t = "''True''"
      and svc = "fixed_service (status_doc ''True'')"
      and st = demo_state and user = "''alice''" and role = "''sysadmin''" and project = None
      and operation = "''add''"]
  note no = decode_status_return [OF wt, where t = "''false''"
      and svc = "fixed_service (status_doc ''false'')"
      and st = demo_state and user = "''alice''" and pname = "''proj''"
      and operation = "''remove''"]
  note none = decode_status_return [OF wn]
  have t1: "decode_status (status_doc ''True'') = Inr True"
    by (rule yes [THEN conjunct1, THEN mp]) (intro conjI mem1 mem2 lt)
  have t2: "decode_status (status_doc ''false'') = Inr False"
    by (rule no [THEN conjunct2, THEN conjunct1, THEN mp]) (intro conjI mem1 mem2 lf)
  have t3: "decode_status no_user_doc = Inl MissingStatusKind"
    by (rule none [THEN conjunct2, THEN conjunct2, THEN conjunct1, THEN mp]) (rule nr)
  have "fst (modify_user_role (fixed_service (status_doc ''True'')) ''alice'' ''sysadmin'' None
            ''add'' demo_state) = decode_status (status_doc ''True'')"
    by (rule yes [THEN conjunct2, THEN conjunct2, THEN conjunct2, THEN conjunct1, THEN mp])
       (rule svc)
  with t1 have t4: "fst (modify_user_role (fixed_service (status_doc ''True'')) ''alice''
            ''sysadmin'' None ''add'' demo_state) = Inr True"
    by (simp only:)
  have "fst (modify_project_user (fixed_service (status_doc ''false'')) ''alice'' ''proj''
            ''remove'' demo_state) = decode_status (status_doc ''false'')"
    by (rule no [THEN conjunct2, THEN conjunct2, THEN conjunct2, THEN conjunct2, THEN mp])
       (rule svc)
  with t2 have t5: "fst (modify_project_user (fixed_service (status_doc ''false'')) ''alice''
            ''proj'' ''remove'' demo_state) = Inr False"
    by (simp only:)
  from wt [of "''True''"] wn t1 t2 t3 t4 t5 show ?thesis by (intro conjI)
qed

subsection \<open>Lists of objects\<close>


lemma and_then_Inr_eq [simp]: "and_then (Inr x) f = f x"
  by (simp add: and_then_def)

lemma and_then_Inl_eq [simp]: "and_then (Inl e) f = Inl e"
  by (simp add: and_then_def)

















end
